theory Spec2Isabelle
  imports Main
begin

section \<open>JavaScript values\<close>

text \<open>
  The job-submission models of the web portal (\<^verbatim>\<open>docker-info.js\<close>, \<^verbatim>\<open>job-protocol.js\<close>)
  work on plain JavaScript values: what the YAML parser returns and what the forms of the
  user interface hold. A value is \<^verbatim>\<open>undefined\<close>, \<^verbatim>\<open>null\<close>, a boolean, a number, a string,
  an array or an object. Numbers are integers here (no fraction, no NaN), of a magnitude
  that a double holds exactly and prints in full; a string is a list of 8-bit
  characters, each one code unit below 256; an object is the list of its own properties
  in the order in which JavaScript enumerates them, each key at most once.

  A plain object inherits from \<^verbatim>\<open>Object.prototype\<close>. Reading a key that the object does
  not own finds the member of that name there, if there is one: one of eleven built-in
  functions, or for \<^verbatim>\<open>__proto__\<close> the prototype object itself. \<open>JInherited m\<close> is that
  value.
\<close>

datatype proto_member =
    M_constructor
  | M_defineGetter
  | M_defineSetter
  | M_hasOwnProperty
  | M_lookupGetter
  | M_lookupSetter
  | M_isPrototypeOf
  | M_propertyIsEnumerable
  | M_toString
  | M_valueOf
  | M_proto
  | M_toLocaleString

datatype jsval =
    JUndefined
  | JNull
  | JBool bool
  | JNum int
  | JStr string
  | JArr "jsval list"
  | JObj "(string \<times> jsval) list"
  | JInherited proto_member

type_synonym jsobj = "(string \<times> jsval) list"

text \<open>
  What an operation can raise: the YAML library's exception with its message, the
  \<^verbatim>\<open>TypeError\<close> of destructuring \<^verbatim>\<open>undefined\<close> or \<^verbatim>\<open>null\<close>, of calling what is no function
  and of converting an object that has no primitive value, and the \<^verbatim>\<open>RangeError\<close> of a
  call that recurses without end.
\<close>

datatype failure = YAMLException string | TypeError | RangeError

definition proto_member_of :: "string \<Rightarrow> proto_member option" where
  "proto_member_of k =
     map_of [(''constructor'', M_constructor),
             (''__defineGetter__'', M_defineGetter),
             (''__defineSetter__'', M_defineSetter),
             (''hasOwnProperty'', M_hasOwnProperty),
             (''__lookupGetter__'', M_lookupGetter),
             (''__lookupSetter__'', M_lookupSetter),
             (''isPrototypeOf'', M_isPrototypeOf),
             (''propertyIsEnumerable'', M_propertyIsEnumerable),
             (''toString'', M_toString),
             (''valueOf'', M_valueOf),
             (''__proto__'', M_proto),
             (''toLocaleString'', M_toLocaleString)] k"

text \<open>\<^verbatim>\<open>o[k]\<close> for a plain object: its own property, else the inherited member.\<close>

definition obj_get :: "jsobj \<Rightarrow> string \<Rightarrow> jsval" where
  "obj_get fs k =
     (case map_of fs k of
        Some v \<Rightarrow> v
      | None \<Rightarrow> (case proto_member_of k of
                   Some m \<Rightarrow> JInherited m
                 | None \<Rightarrow> JUndefined))"

text \<open>
  The inherited members are functions, but for \<^verbatim>\<open>__proto__\<close>. The \<^verbatim>\<open>name\<close> of each
  function is its key, but for \<^verbatim>\<open>constructor\<close>, which is the function \<^verbatim>\<open>Object\<close>.
\<close>

fun callable :: "jsval \<Rightarrow> bool" where
  "callable (JInherited m) = (m \<noteq> M_proto)"
| "callable _ = False"

fun builtin_name :: "proto_member \<Rightarrow> string" where
  "builtin_name M_constructor = ''Object''"
| "builtin_name M_defineGetter = ''__defineGetter__''"
| "builtin_name M_defineSetter = ''__defineSetter__''"
| "builtin_name M_hasOwnProperty = ''hasOwnProperty''"
| "builtin_name M_lookupGetter = ''__lookupGetter__''"
| "builtin_name M_lookupSetter = ''__lookupSetter__''"
| "builtin_name M_isPrototypeOf = ''isPrototypeOf''"
| "builtin_name M_propertyIsEnumerable = ''propertyIsEnumerable''"
| "builtin_name M_toString = ''toString''"
| "builtin_name M_valueOf = ''valueOf''"
| "builtin_name M_proto = []"
| "builtin_name M_toLocaleString = ''toLocaleString''"

text \<open>
  \<^verbatim>\<open>v[k]\<close> for a value that is neither \<^verbatim>\<open>undefined\<close> nor \<^verbatim>\<open>null\<close>, for the keys this code
  reads by name (\<^verbatim>\<open>auth\<close>, \<^verbatim>\<open>password\<close>, \<^verbatim>\<open>defaults\<close>, \<^verbatim>\<open>deployment\<close>, \<^verbatim>\<open>name\<close>, \<^verbatim>\<open>uri\<close>, the
  fields of a document) and for the dotted paths of \<^verbatim>\<open>get\<close>. None of them is an index or
  \<^verbatim>\<open>length\<close>, so a string, an array, a number or a boolean has none; of a function the
  code can read the \<^verbatim>\<open>name\<close>.
\<close>

fun js_prop :: "jsval \<Rightarrow> string \<Rightarrow> jsval" where
  "js_prop (JObj fs) k = obj_get fs k"
| "js_prop (JInherited m) k =
     (if k = ''name'' \<and> m \<noteq> M_proto then JStr (builtin_name m) else JUndefined)"
| "js_prop _ k = JUndefined"

text \<open>\<^verbatim>\<open>k in Object(v)\<close>, for the same keys.\<close>

fun js_has :: "jsval \<Rightarrow> string \<Rightarrow> bool" where
  "js_has (JObj fs) k = (k \<in> fst ` set fs \<or> proto_member_of k \<noteq> None)"
| "js_has (JInherited m) k = (k = ''name'' \<and> m \<noteq> M_proto)"
| "js_has _ k = False"

text \<open>
  \<^verbatim>\<open>m.set(k, v)\<close> on a \<^verbatim>\<open>Map\<close>, and the replacement of an existing property of an
  object: an existing key keeps its place and takes the new value, a new key goes to
  the end.
\<close>

fun assoc_set :: "('k \<times> 'v) list \<Rightarrow> 'k \<Rightarrow> 'v \<Rightarrow> ('k \<times> 'v) list" where
  "assoc_set [] k v = [(k, v)]"
| "assoc_set ((k', v') # fs) k v =
     (if k' = k then (k, v) # fs else (k', v') # assoc_set fs k v)"

text \<open>
  An object enumerates the keys that are array indices first, in ascending numeric
  order, and then the other keys in the order of their creation. An array index is the
  canonical decimal numeral of a number below \<open>2\<^sup>3\<^sup>2 - 1\<close>.
\<close>

definition is_digit :: "char \<Rightarrow> bool" where
  "is_digit c = (c \<in> set ''0123456789'')"

definition decimal_value :: "string \<Rightarrow> int" where
  "decimal_value s = foldl (\<lambda>n c. 10 * n + (of_char c - 48)) 0 s"

definition array_index :: "string \<Rightarrow> int option" where
  "array_index k =
     (if k \<noteq> [] \<and> list_all is_digit k \<and> (k = ''0'' \<or> hd k \<noteq> CHR ''0'')
         \<and> decimal_value k < 4294967295
      then Some (decimal_value k) else None)"

fun insert_index :: "int \<Rightarrow> string \<Rightarrow> jsval \<Rightarrow> jsobj \<Rightarrow> jsobj" where
  "insert_index n k v [] = [(k, v)]"
| "insert_index n k v ((k', v') # fs) =
     (case array_index k' of
        Some m \<Rightarrow> if m < n then (k', v') # insert_index n k v fs else (k, v) # (k', v') # fs
      | None \<Rightarrow> (k, v) # (k', v') # fs)"

text \<open>
  Defining the own property \<open>k\<close> of an object, as an object literal and a spread do.
\<close>

definition obj_set :: "jsobj \<Rightarrow> string \<Rightarrow> jsval \<Rightarrow> jsobj" where
  "obj_set fs k v =
     (if k \<in> fst ` set fs then assoc_set fs k v
      else (case array_index k of
              None \<Rightarrow> fs @ [(k, v)]
            | Some n \<Rightarrow> insert_index n k v fs))"

text \<open>
  The assignment \<^verbatim>\<open>o[k] = v\<close> to a plain object. It defines the property, but for the
  key \<^verbatim>\<open>__proto__\<close> on an object that does not own it: that assignment runs the setter
  inherited from \<^verbatim>\<open>Object.prototype\<close>, which creates no own property.
\<close>

definition obj_assign :: "jsobj \<Rightarrow> string \<Rightarrow> jsval \<Rightarrow> jsobj" where
  "obj_assign fs k v =
     (if k = ''__proto__'' \<and> k \<notin> fst ` set fs then fs else obj_set fs k v)"

text \<open>\<^verbatim>\<open>{...acc, ...src}\<close>: the properties of \<^verbatim>\<open>src\<close> are defined in order.\<close>

definition obj_spread :: "jsobj \<Rightarrow> jsobj \<Rightarrow> jsobj" where
  "obj_spread acc src = foldl (\<lambda>a kv. obj_set a (fst kv) (snd kv)) acc src"

text \<open>Truthiness and \<^verbatim>\<open>a || d\<close>.\<close>

fun truthy :: "jsval \<Rightarrow> bool" where
  "truthy JUndefined = False"
| "truthy JNull = False"
| "truthy (JBool b) = b"
| "truthy (JNum n) = (n \<noteq> 0)"
| "truthy (JStr s) = (s \<noteq> [])"
| "truthy (JArr xs) = True"
| "truthy (JObj fs) = True"
| "truthy (JInherited m) = True"

definition js_or :: "jsval \<Rightarrow> jsval \<Rightarrow> jsval" where
  "js_or a d = (if truthy a then a else d)"

subsection \<open>The lodash functions the models import\<close>

fun isNil :: "jsval \<Rightarrow> bool" where
  "isNil JUndefined = True"
| "isNil JNull = True"
| "isNil _ = False"

text \<open>
  \<^verbatim>\<open>isEmpty\<close>: a string or an array is empty when its length is 0, an object when it has
  no own property; every other value (\<^verbatim>\<open>undefined\<close>, \<^verbatim>\<open>null\<close>, booleans, numbers, the
  inherited functions and the prototype, which have no enumerable property) counts as
  empty. An object with a numeric \<^verbatim>\<open>length\<close> and a function as \<^verbatim>\<open>splice\<close> is taken for
  array-like and is empty when that length is 0.
\<close>

fun is_length :: "jsval \<Rightarrow> bool" where
  "is_length (JNum n) = (0 \<le> n \<and> n \<le> 9007199254740991)"
| "is_length _ = False"

fun isEmpty :: "jsval \<Rightarrow> bool" where
  "isEmpty (JStr s) = (s = [])"
| "isEmpty (JArr xs) = (xs = [])"
| "isEmpty (JObj fs) =
     (if is_length (obj_get fs ''length'') \<and> callable (obj_get fs ''splice'')
      then obj_get fs ''length'' = JNum 0
      else fs = [])"
| "isEmpty _ = True"

text \<open>
  \<^verbatim>\<open>get(o, 'k1.k2', d)\<close>. When the whole path is a key of the object, that property is
  read. Otherwise the path is walked, and the walk stops with \<^verbatim>\<open>undefined\<close> at a step
  that is \<^verbatim>\<open>undefined\<close> or \<^verbatim>\<open>null\<close>. The default replaces an \<^verbatim>\<open>undefined\<close> result only (a
  \<^verbatim>\<open>null\<close> is returned as it is).
\<close>

definition get2 :: "jsval \<Rightarrow> string \<Rightarrow> string \<Rightarrow> jsval \<Rightarrow> jsval" where
  "get2 obj k1 k2 d =
     (let result =
        (if isNil obj then JUndefined
         else if js_has obj (k1 @ ''.'' @ k2) then js_prop obj (k1 @ ''.'' @ k2)
         else (let a = js_prop obj k1
               in if isNil a then JUndefined else js_prop a k2))
      in if result = JUndefined then d else result)"

subsection \<open>Conversion to string\<close>

definition digit_char :: "nat \<Rightarrow> char" where
  "digit_char d = char_of (48 + d)"

fun show_nat :: "nat \<Rightarrow> string" where
  "show_nat n = (if n < 10 then [digit_char n] else show_nat (n div 10) @ [digit_char (n mod 10)])"

definition show_int :: "int \<Rightarrow> string" where
  "show_int i = (if i < 0 then CHR ''-'' # show_nat (nat (- i)) else show_nat (nat i))"

text \<open>\<^verbatim>\<open>String(v)\<close> of a primitive value.\<close>

fun prim_toString :: "jsval \<Rightarrow> string" where
  "prim_toString JUndefined = ''undefined''"
| "prim_toString JNull = ''null''"
| "prim_toString (JBool b) = (if b then ''true'' else ''false'')"
| "prim_toString (JNum n) = show_int n"
| "prim_toString (JStr s) = s"
| "prim_toString _ = []"

fun is_object :: "jsval \<Rightarrow> bool" where
  "is_object (JArr xs) = True"
| "is_object (JObj fs) = True"
| "is_object (JInherited m) = True"
| "is_object _ = False"

text \<open>
  What a built-in function of \<^verbatim>\<open>Object.prototype\<close> returns when it is called on a plain
  object without arguments, as the conversion of the object to a primitive calls it.
  \<^verbatim>\<open>toString\<close> returns \<^verbatim>\<open>[object Object]\<close>, \<^verbatim>\<open>valueOf\<close> the object itself,
  \<^verbatim>\<open>hasOwnProperty\<close> and \<^verbatim>\<open>propertyIsEnumerable\<close> whether the object owns the key
  \<^verbatim>\<open>undefined\<close>, \<^verbatim>\<open>isPrototypeOf\<close> false, \<^verbatim>\<open>Object\<close> a new object, the two lookups
  \<^verbatim>\<open>undefined\<close>; the two definers raise since their argument is no function.
  \<^verbatim>\<open>toLocaleString\<close> calls the \<^verbatim>\<open>toString\<close> of the object; when that is \<^verbatim>\<open>toLocaleString\<close>
  again, the calls never end.
\<close>

fun call_simple :: "proto_member \<Rightarrow> jsobj \<Rightarrow> failure + jsval" where
  "call_simple M_toString fs = Inr (JStr ''[object Object]'')"
| "call_simple M_valueOf fs = Inr (JObj fs)"
| "call_simple M_hasOwnProperty fs = Inr (JBool (''undefined'' \<in> fst ` set fs))"
| "call_simple M_propertyIsEnumerable fs = Inr (JBool (''undefined'' \<in> fst ` set fs))"
| "call_simple M_isPrototypeOf fs = Inr (JBool False)"
| "call_simple M_constructor fs = Inr (JObj [])"
| "call_simple M_lookupGetter fs = Inr JUndefined"
| "call_simple M_lookupSetter fs = Inr JUndefined"
| "call_simple M_defineGetter fs = Inl TypeError"
| "call_simple M_defineSetter fs = Inl TypeError"
| "call_simple M_proto fs = Inl TypeError"
| "call_simple M_toLocaleString fs = Inl RangeError"

definition call_method :: "proto_member \<Rightarrow> jsobj \<Rightarrow> failure + jsval" where
  "call_method m fs =
     (if m = M_toLocaleString
      then (case obj_get fs ''toString'' of
              JInherited m' \<Rightarrow> call_simple m' fs
            | _ \<Rightarrow> Inl TypeError)
      else call_simple m fs)"

text \<open>
  The conversion of a plain object to a primitive, for a string: the result of its
  \<^verbatim>\<open>toString\<close> if that is a function and returns a primitive, else the result of its
  \<^verbatim>\<open>valueOf\<close> on the same condition, else a \<^verbatim>\<open>TypeError\<close>.
\<close>

definition try_method :: "jsobj \<Rightarrow> string \<Rightarrow> (failure + jsval) \<Rightarrow> failure + jsval" where
  "try_method fs k otherwise =
     (if callable (obj_get fs k)
      then (case obj_get fs k of
              JInherited m \<Rightarrow>
                (case call_method m fs of
                   Inl e \<Rightarrow> Inl e
                 | Inr r \<Rightarrow> if is_object r then otherwise else Inr r)
            | _ \<Rightarrow> otherwise)
      else otherwise)"

definition to_primitive :: "jsobj \<Rightarrow> failure + jsval" where
  "to_primitive fs = try_method fs ''toString'' (try_method fs ''valueOf'' (Inl TypeError))"

text \<open>
  \<^verbatim>\<open>String(v)\<close>, which \<^verbatim>\<open>RegExp.prototype.exec\<close> applies to its argument. An array is its
  elements joined by commas, with \<^verbatim>\<open>undefined\<close> and \<^verbatim>\<open>null\<close> elements as the empty string;
  an object is its primitive value as a string; a built-in function is its source text.
\<close>

fun js_toString :: "jsval \<Rightarrow> failure + string"
  and join_elems :: "jsval list \<Rightarrow> failure + string" where
  "js_toString (JArr xs) = join_elems xs"
| "js_toString (JObj fs) =
     (case to_primitive fs of Inl e \<Rightarrow> Inl e | Inr p \<Rightarrow> Inr (prim_toString p))"
| "js_toString (JInherited m) =
     Inr (if m = M_proto then ''[object Object]''
          else ''function '' @ builtin_name m @ ''() { [native code] }'')"
| "js_toString JUndefined = Inr (prim_toString JUndefined)"
| "js_toString JNull = Inr (prim_toString JNull)"
| "js_toString (JBool b) = Inr (prim_toString (JBool b))"
| "js_toString (JNum n) = Inr (prim_toString (JNum n))"
| "js_toString (JStr s) = Inr s"
| "join_elems [] = Inr []"
| "join_elems [x] = (if isNil x then Inr [] else js_toString x)"
| "join_elems (x # y # ys) =
     (case (if isNil x then Inr [] else js_toString x) of
        Inl e \<Rightarrow> Inl e
      | Inr a \<Rightarrow>
          (case join_elems (y # ys) of
             Inl e \<Rightarrow> Inl e
           | Inr b \<Rightarrow> Inr (a @ '','' @ b)))"

text \<open>
  The own enumerable properties that \<^verbatim>\<open>{...v}\<close> copies: those of an object, the indexed
  elements of an array, the indexed characters of a string, none for any other value.
\<close>

fun props_of :: "jsval \<Rightarrow> jsobj" where
  "props_of (JObj fs) = fs"
| "props_of (JArr xs) = zip (map show_nat [0..<length xs]) xs"
| "props_of (JStr s) = zip (map show_nat [0..<length s]) (map (\<lambda>c. JStr [c]) s)"
| "props_of _ = []"

section \<open>Pruning\<close>

text \<open>
  Modelled from the spec: \<^verbatim>\<open>removeEmptyProperties\<close> of \<^verbatim>\<open>utils/utils.js\<close>, which both
  models import and which is not among the sources. The specification says that pruning
  removes the fields whose value is an empty string, an empty mapping or an empty
  sequence, and that it does so recursively, so that what is emitted has no mapping or
  sequence field with zero entries. So the fields of a mapping are pruned first, and a
  field is removed when what is left of its value is empty; the elements of a sequence
  are pruned and all kept.
\<close>

definition empty_prunable :: "jsval \<Rightarrow> bool" where
  "empty_prunable v = (v = JStr [] \<or> v = JObj [] \<or> v = JArr [])"

fun removeEmptyProperties :: "jsval \<Rightarrow> jsval"
  and prune_fields :: "jsobj \<Rightarrow> jsobj"
  and prune_elems :: "jsval list \<Rightarrow> jsval list" where
  "removeEmptyProperties (JObj fs) = JObj (prune_fields fs)"
| "removeEmptyProperties (JArr xs) = JArr (prune_elems xs)"
| "removeEmptyProperties v = v"
| "prune_fields [] = []"
| "prune_fields ((k, v) # fs) =
     (if empty_prunable (removeEmptyProperties v) then prune_fields fs
      else (k, removeEmptyProperties v) # prune_fields fs)"
| "prune_elems [] = []"
| "prune_elems (x # xs) = removeEmptyProperties x # prune_elems xs"

section \<open>The container reference: \<^verbatim>\<open>DockerInfo\<close>\<close>

text \<open>
  \<^verbatim>\<open>SECRET_PATTERN = /^<% \$secrets.([a-zA-Z_][a-zA-Z0-9_]*) %>/\<close>. The pattern is
  anchored at the start only. After the literal \<^verbatim>\<open><% $secrets\<close> the unescaped dot takes
  any one character that is not a line terminator; then comes the identifier, then the
  literal \<^verbatim>\<open> %>\<close>. The star is greedy, and because a space is no identifier character
  the only split that can succeed is the longest run of identifier characters.
  \<^verbatim>\<open>exec\<close> returns \<^verbatim>\<open>null\<close> (here \<open>None\<close>) or the match array, of which the code reads
  group 1 (here \<open>Some\<close> of it).
\<close>

definition ident_start :: "char \<Rightarrow> bool" where
  "ident_start c =
     (c \<in> set ''abcdefghijklmnopqrstuvwxyzABCDEFGHIJKLMNOPQRSTUVWXYZ_'')"

definition ident_char :: "char \<Rightarrow> bool" where
  "ident_char c = (ident_start c \<or> c \<in> set ''0123456789'')"

definition line_terminator :: "char \<Rightarrow> bool" where
  "line_terminator c = (c = CHR 0x0A \<or> c = CHR 0x0D)"

fun strip_prefix :: "string \<Rightarrow> string \<Rightarrow> string option" where
  "strip_prefix [] s = Some s"
| "strip_prefix (p # ps) [] = None"
| "strip_prefix (p # ps) (c # cs) = (if p = c then strip_prefix ps cs else None)"

definition SECRET_PATTERN_exec :: "string \<Rightarrow> string option" where
  "SECRET_PATTERN_exec s =
     (case strip_prefix ''<% $secrets'' s of
        None \<Rightarrow> None
      | Some [] \<Rightarrow> None
      | Some (c # r) \<Rightarrow>
          if line_terminator c then None
          else (case r of
                  [] \<Rightarrow> None
                | h # t \<Rightarrow>
                    if \<not> ident_start h then None
                    else (case strip_prefix '' %>'' (dropWhile ident_char t) of
                            None \<Rightarrow> None
                          | Some _ \<Rightarrow> Some (h # takeWhile ident_char t))))"

record DockerInfo =
  uri :: jsval
  auth :: jsval
  updateTime :: int
  secretRef :: jsval
  name :: jsval

text \<open>
  The constructor. Its \<^verbatim>\<open>name\<close> is not a field of \<^verbatim>\<open>props\<close>: the identifier is free in
  the module and denotes the global of that name, which the model takes as the
  parameter \<open>gname\<close>, as it takes the clock reading \<^verbatim>\<open>Date.now()\<close> as \<open>now\<close>.
\<close>

definition DockerInfo_new :: "jsval \<Rightarrow> int \<Rightarrow> jsobj \<Rightarrow> DockerInfo" where
  "DockerInfo_new gname now props =
     \<lparr> uri = js_or (obj_get props ''uri'') (JStr []),
       auth = js_or (obj_get props ''auth'') (JObj []),
       updateTime = now,
       secretRef = (if \<not> isEmpty (obj_get props ''secretRef'')
                    then obj_get props ''secretRef'' else JStr []),
       name = js_or gname (JStr []) \<rparr>"

text \<open>
  \<^verbatim>\<open>DockerInfo.fromProtocol(dockerInfoProtocol, secrets)\<close>. The pair computed first is the
  value of the two local variables \<^verbatim>\<open>auth\<close> and \<^verbatim>\<open>secretRef\<close> after the \<^verbatim>\<open>if\<close>. The
  conversion of the password to a string, which \<^verbatim>\<open>exec\<close> does, may raise; and
  \<^verbatim>\<open>secrets[secretKey]\<close> reads through the prototype of the secret mapping.
\<close>

definition resolve_auth :: "jsobj \<Rightarrow> jsobj \<Rightarrow> failure + (jsval \<times> jsval)" where
  "resolve_auth dockerInfoProtocol secrets =
     (let secretRef0 = get2 (JObj dockerInfoProtocol) ''auth'' ''password'' (JStr [])
      in if \<not> isNil secretRef0 then
           (case js_toString secretRef0 of
              Inl e \<Rightarrow> Inl e
            | Inr s \<Rightarrow>
                (let secretKey = (case SECRET_PATTERN_exec s of None \<Rightarrow> [] | Some k \<Rightarrow> k)
                 in if secretKey \<noteq> [] \<and> \<not> isNil (obj_get secrets secretKey)
                    then Inr (JObj (obj_set
                                     (obj_spread [] (props_of (obj_get dockerInfoProtocol ''auth'')))
                                     ''password'' (obj_get secrets secretKey)),
                              secretRef0)
                    else Inr (JObj [], JStr [])))
         else Inr (JUndefined, secretRef0))"

definition fromProtocol :: "jsval \<Rightarrow> int \<Rightarrow> jsobj \<Rightarrow> jsobj \<Rightarrow> failure + DockerInfo" where
  "fromProtocol gname now dockerInfoProtocol secrets =
     (case resolve_auth dockerInfoProtocol secrets of
        Inl e \<Rightarrow> Inl e
      | Inr av \<Rightarrow>
          Inr (DockerInfo_new gname now
                 (obj_set (obj_set (obj_spread [] dockerInfoProtocol) ''auth'' (fst av))
                    ''secretRef'' (snd av))))"

definition convertToProtocolFormat :: "DockerInfo \<Rightarrow> jsval" where
  "convertToProtocolFormat d =
     (let prunedAuth0 = obj_spread [] (props_of (auth d));
          prunedAuth = (if \<not> isEmpty (secretRef d)
                        then obj_set prunedAuth0 ''password'' (secretRef d)
                        else prunedAuth0)
      in removeEmptyProperties
           (JObj [(''type'', JStr ''dockerimage''),
                  (''auth'', JObj prunedAuth),
                  (''uri'', uri d),
                  (''name'', DockerInfo.name d)]))"

section \<open>The protocol document: \<^verbatim>\<open>JobProtocol\<close>\<close>

record JobProtocol =
  protocolVersion :: jsval
  name :: jsval
  description :: jsval
  contributor :: jsval
  type :: jsval
  jobRetryCount :: jsval
  prerequisites :: jsval
  parameters :: jsval
  taskRoles :: jsval
  deployments :: jsval
  secrets :: jsval
  defaults :: jsval
  extras :: jsval

text \<open>
  The constructor destructures \<^verbatim>\<open>props\<close>, which raises on \<^verbatim>\<open>undefined\<close> and \<^verbatim>\<open>null\<close>,
  and then assigns the thirteen fields in this order.
\<close>

definition JobProtocol_new :: "jsval \<Rightarrow> failure + JobProtocol" where
  "JobProtocol_new props =
     (if isNil props then Inl TypeError
      else Inr
        \<lparr> protocolVersion = JNum 2,
          name = js_or (js_prop props ''name'') (JStr []),
          description = js_or (js_prop props ''description'') (JStr []),
          contributor = js_or (js_prop props ''contributor'') (JStr []),
          type = JStr ''job'',
          jobRetryCount = js_or (js_prop props ''jobRetryCount'') (JNum 0),
          prerequisites = js_or (js_prop props ''prerequisites'') (JArr []),
          parameters = js_or (js_prop props ''parameters'') (JObj []),
          taskRoles = js_or (js_prop props ''taskRoles'') (JObj []),
          deployments = js_or (js_prop props ''deployments'') (JObj []),
          secrets = js_or (js_prop props ''secrets'') (JObj []),
          defaults = js_or (js_prop props ''defaults'') (JObj []),
          extras = js_or (js_prop props ''extras'') (JObj []) \<rparr>)"

text \<open>The own properties of an instance, which \<^verbatim>\<open>{...this}\<close> and the pruning read.\<close>

definition this_props :: "JobProtocol \<Rightarrow> jsobj" where
  "this_props d =
     [(''protocolVersion'', protocolVersion d),
      (''name'', name d),
      (''description'', description d),
      (''contributor'', contributor d),
      (''type'', type d),
      (''jobRetryCount'', jobRetryCount d),
      (''prerequisites'', prerequisites d),
      (''parameters'', parameters d),
      (''taskRoles'', taskRoles d),
      (''deployments'', deployments d),
      (''secrets'', secrets d),
      (''defaults'', defaults d),
      (''extras'', extras d)]"

text \<open>
  The exception of the YAML library (js-yaml, \<^verbatim>\<open>YAMLException\<close>) is made of a reason and
  of an optional mark, the position in the text as a string. Its constructor sets
  \<^verbatim>\<open>message = (reason || '(unknown reason)') + (mark ? ' ' + mark.toString() : '')\<close>.
\<close>

datatype yaml_exception = YAMLError string "string option"

fun yaml_message :: "yaml_exception \<Rightarrow> string" where
  "yaml_message (YAMLError reason mark) =
     (if reason = [] then ''(unknown reason)'' else reason)
     @ (case mark of None \<Rightarrow> [] | Some m \<Rightarrow> '' '' @ m)"

text \<open>
  The YAML library is a parameter of the operations that call it: \<open>safeLoad\<close> returns
  the parsed value or the exception it raises, \<open>safeDump\<close> the text or the exception.
  \<^verbatim>\<open>fromYaml\<close> and \<^verbatim>\<open>toYaml\<close> catch what is raised and pass its message to \<^verbatim>\<open>alert\<close>; they
  then return nothing, which is the \<open>Inl\<close> result here.
\<close>

definition fromYaml ::
  "(string \<Rightarrow> yaml_exception + jsval) \<Rightarrow> string \<Rightarrow> failure + JobProtocol" where
  "fromYaml safeLoad protocolYaml =
     (case safeLoad protocolYaml of
        Inl e \<Rightarrow> Inl (YAMLException (yaml_message e))
      | Inr jobProtocol \<Rightarrow> JobProtocol_new jobProtocol)"

definition toYaml ::
  "(jsval \<Rightarrow> yaml_exception + string) \<Rightarrow> JobProtocol \<Rightarrow> failure + string" where
  "toYaml safeDump d =
     (case safeDump (removeEmptyProperties (JObj (this_props d))) of
        Inl e \<Rightarrow> Inl (YAMLException (yaml_message e))
      | Inr text \<Rightarrow> Inr text)"

text \<open>
  \<^verbatim>\<open>validateFromYaml\<close>. The schema validator is the parameter \<open>validate\<close>: it returns
  \<open>None\<close> for a \<^verbatim>\<open>null\<close> error and otherwise the message of its error object, whose
  name is \<^verbatim>\<open>ValidationError\<close>. \<^verbatim>\<open>String\<close> of an error object is the result of
  \<^verbatim>\<open>Error.prototype.toString\<close>: the name, a colon and the message, or the one of the two
  that is not empty. The \<^verbatim>\<open>catch\<close> returns the message of the parser's exception.
\<close>

definition error_toString :: "string \<Rightarrow> string \<Rightarrow> string" where
  "error_toString nm msg =
     (if nm = [] then msg else if msg = [] then nm else nm @ '': '' @ msg)"

definition validateFromYaml ::
  "(string \<Rightarrow> yaml_exception + jsval) \<Rightarrow> (jsval \<Rightarrow> string option) \<Rightarrow> string \<Rightarrow> string" where
  "validateFromYaml safeLoad validate protocolYaml =
     (case safeLoad protocolYaml of
        Inl err \<Rightarrow> yaml_message err
      | Inr protocol \<Rightarrow>
          (case validate protocol of
             None \<Rightarrow> []
           | Some msg \<Rightarrow> error_toString ''ValidationError'' msg))"

subsection \<open>Deriving the updated document\<close>

text \<open>
  Modelled from the spec: \<^verbatim>\<open>keyValueArrayReducer\<close> of \<^verbatim>\<open>utils/utils.js\<close>, not among the
  sources. The specification describes the reduction as a fold over key/value pairs
  into a single ordered mapping in which a later duplicate key overwrites the earlier
  value.
\<close>

definition keyValueArrayReducer :: "jsobj \<Rightarrow> jsobj \<Rightarrow> jsobj" where
  "keyValueArrayReducer acc cur = obj_spread acc cur"

text \<open>
  The collaborators of \<^verbatim>\<open>getUpdatedProtocol\<close> are not among the sources; each is
  represented by what its methods return. A task role has a \<^verbatim>\<open>name\<close> and the results of
  \<^verbatim>\<open>getDockerPrerequisite()\<close>, \<^verbatim>\<open>getDeployment()\<close> and \<^verbatim>\<open>convertToProtocolFormat()\<close>; the
  basic information has the results of \<^verbatim>\<open>getDefaults()\<close> and \<^verbatim>\<open>convertToProtocolFormat()\<close>.
  An edit of the parameter and secret forms is a pair of a key and a value, both
  strings of a text field.
\<close>

record task_role =
  role_name :: string
  role_dockerPrerequisite :: jsobj
  role_deployment :: jsval
  role_protocolFormat :: jsobj

record basic_info =
  basic_defaults :: jsval
  basic_protocolFormat :: jsobj

type_synonym key_value = "string \<times> string"

text \<open>
  \<^verbatim>\<open>_getTaskRolesPrerequisites\<close>: a \<^verbatim>\<open>Map\<close> keyed by the \<^verbatim>\<open>name\<close> of each prerequisite;
  its values are read in insertion order. A \<^verbatim>\<open>Map\<close> compares strings and
  \<^verbatim>\<open>undefined\<close> by value, which is how names are compared here.
\<close>

definition prerequisite_name :: "jsobj \<Rightarrow> jsval" where
  "prerequisite_name v = obj_get v ''name''"

definition getTaskRolesPrerequisites :: "task_role list \<Rightarrow> jsobj list" where
  "getTaskRolesPrerequisites jobTaskRoles =
     (let prereqs = map role_dockerPrerequisite jobTaskRoles;
          m = foldl (\<lambda>m v. assoc_set m (prerequisite_name v) v) [] prereqs
      in map snd m)"

definition updateAndConvertTaskRoles :: "task_role list \<Rightarrow> jsobj" where
  "updateAndConvertTaskRoles jobTaskRoles =
     foldl keyValueArrayReducer [] (map role_protocolFormat jobTaskRoles)"

text \<open>
  \<^verbatim>\<open>_generateDeployments\<close>: for each role, \<^verbatim>\<open>deployment = {}\<close> and then the assignment
  \<^verbatim>\<open>deployment[taskRole.name] = taskRole.getDeployment()\<close>.
\<close>

definition generateDeployments :: "task_role list \<Rightarrow> jsval" where
  "generateDeployments jobTaskRoles =
     removeEmptyProperties
       (JObj (foldl keyValueArrayReducer []
                (map (\<lambda>taskRole. obj_assign [] (role_name taskRole) (role_deployment taskRole))
                   jobTaskRoles)))"

text \<open>
  The mapping built from the edits of a form, before it is pruned: for each edit,
  \<^verbatim>\<open>param = {}\<close> and then the assignment \<^verbatim>\<open>param[parameter.key] = parameter.value\<close>; the
  objects are then reduced.
\<close>

definition edits_object :: "key_value list \<Rightarrow> jsobj" where
  "edits_object edits =
     foldl keyValueArrayReducer [] (map (\<lambda>e. obj_assign [] (fst e) (JStr (snd e))) edits)"

definition getUpdatedProtocol ::
  "JobProtocol \<Rightarrow> basic_info \<Rightarrow> task_role list \<Rightarrow> key_value list \<Rightarrow> key_value list
     \<Rightarrow> failure + JobProtocol" where
  "getUpdatedProtocol this jobBasicInfo jobTaskRoles jobParameters jobSecrets =
     (let parameters_v = removeEmptyProperties (JObj (edits_object jobParameters));
          deployments0 = generateDeployments jobTaskRoles;
          delpoyName = get2 (JObj (this_props this)) ''defaults'' ''deployment''
                         (JStr ''defaultDeployment'');
          deployments_v = (if isEmpty deployments0 then JArr []
                           else JArr [JObj [(''name'', delpoyName), (''taskRoles'', deployments0)]]);
          prerequisites_v = JArr (map JObj (getTaskRolesPrerequisites jobTaskRoles));
          taskRoles_v = JObj (updateAndConvertTaskRoles jobTaskRoles);
          secrets_v = removeEmptyProperties (JObj (edits_object jobSecrets));
          defaultsField = removeEmptyProperties (basic_defaults jobBasicInfo);
          merged = obj_spread (obj_spread [] (this_props this)) (basic_protocolFormat jobBasicInfo);
          props = obj_set (obj_set (obj_set (obj_set (obj_set (obj_set merged
                    ''parameters'' parameters_v)
                    ''taskRoles'' taskRoles_v)
                    ''prerequisites'' prerequisites_v)
                    ''deployments'' deployments_v)
                    ''secrets'' secrets_v)
                    ''defaults'' defaultsField
      in JobProtocol_new (JObj props))"

section \<open>Notions the properties are stated with\<close>

text \<open>
  A value has no empty field when no field of a mapping in it, at any depth and also
  inside sequences, holds an empty string, an empty mapping or an empty sequence.
\<close>

fun no_empty_fields :: "jsval \<Rightarrow> bool"
  and fields_nonempty :: "jsobj \<Rightarrow> bool"
  and elems_nonempty :: "jsval list \<Rightarrow> bool" where
  "no_empty_fields (JObj fs) = fields_nonempty fs"
| "no_empty_fields (JArr xs) = elems_nonempty xs"
| "no_empty_fields v = True"
| "fields_nonempty [] = True"
| "fields_nonempty ((k, v) # fs) =
     (\<not> empty_prunable v \<and> no_empty_fields v \<and> fields_nonempty fs)"
| "elems_nonempty [] = True"
| "elems_nonempty (x # xs) = (no_empty_fields x \<and> elems_nonempty xs)"

text \<open>The distinct elements of a list in the order in which each is first seen.\<close>

fun first_seen :: "'a list \<Rightarrow> 'a list" where
  "first_seen [] = []"
| "first_seen (x # xs) = x # filter (\<lambda>y. y \<noteq> x) (first_seen xs)"

text \<open>
  The outcome of an ordered list of edits for the key \<open>k\<close>, in the specification's words:
  the value of the last edit with that key wins, and the entry is dropped when that
  value is empty. (\<open>map_of\<close> returns the first pair with the key, so on the reversed
  list it returns the last edit.)
\<close>

definition last_wins :: "key_value list \<Rightarrow> string \<Rightarrow> jsval option" where
  "last_wins edits k =
     (case map_of (rev edits) k of
        None \<Rightarrow> None
      | Some v \<Rightarrow> if v = [] then None else Some (JStr v))"

subsection \<open>Sample inputs\<close>

text \<open>A document with empty fields, as the constructor leaves them.\<close>

definition doc0 :: JobProtocol where
  "doc0 = \<lparr> protocolVersion = JNum 2, name = JStr ''job1'', description = JStr [],
     contributor = JStr [], type = JStr ''job'', jobRetryCount = JNum 0,
     prerequisites = JArr [], parameters = JObj [], taskRoles = JObj [],
     deployments = JObj [], secrets = JObj [], defaults = JObj [], extras = JObj [] \<rparr>"

text \<open>A field bundle without empty fields, and the document the constructor makes of it.\<close>

definition doc1_props :: jsval where
  "doc1_props = JObj
     [(''name'', JStr ''job1''), (''description'', JStr ''a job''), (''contributor'', JStr ''me''),
      (''jobRetryCount'', JNum 0),
      (''prerequisites'', JArr [JObj [(''name'', JStr ''img''), (''type'', JStr ''dockerimage'')]]),
      (''parameters'', JObj [(''a'', JStr ''2'')]),
      (''taskRoles'', JObj [(''worker'', JObj [(''instances'', JNum 1)])]),
      (''deployments'', JArr [JObj [(''name'', JStr ''defaultDeployment'')]]),
      (''secrets'', JObj [(''k1'', JStr ''hunter2'')]),
      (''defaults'', JObj [(''deployment'', JStr ''defaultDeployment'')]),
      (''extras'', JObj [(''submitFrom'', JStr ''portal'')])]"

definition doc1 :: JobProtocol where
  "doc1 = \<lparr> protocolVersion = JNum 2, name = JStr ''job1'', description = JStr ''a job'',
     contributor = JStr ''me'', type = JStr ''job'', jobRetryCount = JNum 0,
     prerequisites = JArr [JObj [(''name'', JStr ''img''), (''type'', JStr ''dockerimage'')]],
     parameters = JObj [(''a'', JStr ''2'')],
     taskRoles = JObj [(''worker'', JObj [(''instances'', JNum 1)])],
     deployments = JArr [JObj [(''name'', JStr ''defaultDeployment'')]],
     secrets = JObj [(''k1'', JStr ''hunter2'')],
     defaults = JObj [(''deployment'', JStr ''defaultDeployment'')],
     extras = JObj [(''submitFrom'', JStr ''portal'')] \<rparr>"

text \<open>
  A serializer and a parser that know one document and one text, and a parser and a
  validator that fail on some inputs: stand-ins for the libraries at concrete inputs.
\<close>

definition sample_dump :: "jsval \<Rightarrow> yaml_exception + string" where
  "sample_dump v =
     (if v = JObj (this_props doc1) then Inr ''sample''
      else Inl (YAMLError ''unacceptable kind of an object to dump'' None))"

definition sample_load :: "string \<Rightarrow> yaml_exception + jsval" where
  "sample_load t =
     (if t = ''sample'' then Inr (JObj (this_props doc1))
      else Inl (YAMLError ''unexpected text'' (Some ''at line 1, column 1'')))"

definition sample_parse :: "string \<Rightarrow> yaml_exception + jsval" where
  "sample_parse t =
     (if t = ''not: [valid''
      then Inl (YAMLError ''unexpected end of the stream within a flow collection''
                  (Some ''at line 2, column 1''))
      else Inr (JObj [(''name'', JStr t)]))"

definition sample_validate :: "jsval \<Rightarrow> string option" where
  "sample_validate v =
     (if js_prop v ''name'' = JStr ''job1'' then None
      else Some ''child name fails because of its value'')"

definition sample_roles :: "task_role list" where
  "sample_roles =
     [\<lparr> role_name = ''A'',
        role_dockerPrerequisite = [(''name'', JStr ''img''), (''uri'', JStr ''u1'')],
        role_deployment = JObj [], role_protocolFormat = [] \<rparr>,
      \<lparr> role_name = ''B'',
        role_dockerPrerequisite = [(''name'', JStr ''other''), (''uri'', JStr ''u2'')],
        role_deployment = JObj [], role_protocolFormat = [] \<rparr>,
      \<lparr> role_name = ''A2'',
        role_dockerPrerequisite = [(''name'', JStr ''img''), (''uri'', JStr ''u3'')],
        role_deployment = JObj [], role_protocolFormat = [] \<rparr>]"

section \<open>Basic facts\<close>

lemma map_of_assoc_set: "map_of (assoc_set fs k v) = (map_of fs)(k \<mapsto> v)"
  by (induction fs) (auto simp: fun_eq_iff)

lemma set_insert_index: "set (insert_index n k v fs) = insert (k, v) (set fs)"
  by (induction fs) (auto split: option.splits if_splits)

lemma map_of_insert_index:
  "k \<notin> fst ` set fs \<Longrightarrow> map_of (insert_index n k v fs) = (map_of fs)(k \<mapsto> v)"
  by (induction fs) (auto simp: fun_eq_iff split: option.splits)

lemma map_of_obj_set: "map_of (obj_set fs k v) = (map_of fs)(k \<mapsto> v)"
proof (cases "k \<in> fst ` set fs")
  case True
  then show ?thesis by (simp add: obj_set_def map_of_assoc_set)
next
  case False
  then have "map_of fs k = None" by (simp add: map_of_eq_None_iff)
  then have "map_of (fs @ [(k, v)]) = (map_of fs)(k \<mapsto> v)"
    by (auto simp: fun_eq_iff map_add_def split: option.splits)
  with False show ?thesis
    by (simp add: obj_set_def map_of_insert_index split: option.splits)
qed

lemma obj_get_obj_set:
  "obj_get (obj_set fs k v) k' = (if k' = k then v else obj_get fs k')"
  by (simp add: obj_get_def map_of_obj_set)

lemma obj_set_Nil: "obj_set [] k v = [(k, v)]"
  by (simp add: obj_set_def split: option.splits)

lemma array_index_nondigit: "\<not> is_digit c \<Longrightarrow> array_index (c # cs) = None"
  by (simp add: array_index_def)

lemma get2_not_undefined: "d \<noteq> JUndefined \<Longrightarrow> get2 obj k1 k2 d \<noteq> JUndefined"
  by (simp add: get2_def Let_def)

lemma isNil_iff: "isNil v \<longleftrightarrow> v = JUndefined \<or> v = JNull"
  by (cases v) simp_all

lemma SECRET_PATTERN_exec_k1:
  "SECRET_PATTERN_exec ''<% $secrets.k1 %>'' = Some ''k1''"
  by (simp add: SECRET_PATTERN_exec_def ident_start_def ident_char_def line_terminator_def)

lemma resolve_auth_k1:
  "resolve_auth [(''auth'', JObj [(''password'', JStr ''<% $secrets.k1 %>'')])]
       [(''k1'', JStr ''hunter2'')]
   = Inr (JObj [(''password'', JStr ''hunter2'')], JStr ''<% $secrets.k1 %>'')"
  by (simp add: resolve_auth_def get2_def obj_get_def proto_member_of_def
        SECRET_PATTERN_exec_k1 obj_spread_def obj_set_def array_index_nondigit is_digit_def)

subsection \<open>Ordered mappings\<close>

lemma keys_assoc_set: "fst ` set (assoc_set fs k v) = insert k (fst ` set fs)"
  by (induction fs) (auto split: if_splits simp: rev_image_eqI)

lemma distinct_assoc_set: "distinct (map fst fs) \<Longrightarrow> distinct (map fst (assoc_set fs k v))"
  by (induction fs) (auto simp: keys_assoc_set)

lemma set_assoc_set: "set (assoc_set fs k v) \<subseteq> insert (k, v) (set fs)"
  by (induction fs) (auto split: if_splits)

lemma set_obj_set: "set (obj_set fs k v) \<subseteq> insert (k, v) (set fs)"
proof -
  have "set (assoc_set fs k v) \<subseteq> insert (k, v) (set fs)"
    by (rule set_assoc_set)
  then show ?thesis
    by (auto simp: obj_set_def set_insert_index split: option.splits)
qed

lemma values_obj_set: "snd ` set (obj_set fs k v) \<subseteq> insert v (snd ` set fs)"
  using set_obj_set [of fs k v] by force

lemma distinct_insert_index:
  "distinct (map fst fs) \<Longrightarrow> k \<notin> fst ` set fs \<Longrightarrow> distinct (map fst (insert_index n k v fs))"
  by (induction fs) (auto simp: set_insert_index split: option.splits)

lemma distinct_obj_set: "distinct (map fst fs) \<Longrightarrow> distinct (map fst (obj_set fs k v))"
  by (auto simp: obj_set_def distinct_assoc_set distinct_insert_index split: option.splits)

lemma assoc_set_tabulate:
  "assoc_set (map (\<lambda>n. (n, f n)) ns) k v =
     (if k \<in> set ns then map (\<lambda>n. (n, (f(k := v)) n)) ns
      else map (\<lambda>n. (n, f n)) ns @ [(k, v)])"
  if "distinct ns"
  using that by (induction ns) auto

lemma map_of_filter_distinct:
  "distinct (map fst fs) \<Longrightarrow>
   map_of (filter P fs) k =
     (case map_of fs k of None \<Rightarrow> None | Some v \<Rightarrow> if P (k, v) then Some v else None)"
proof (induction fs)
  case Nil
  show ?case by simp
next
  case (Cons a fs)
  obtain k' v' where a: "a = (k', v')" by (cases a)
  from Cons.prems a have notin: "map_of fs k' = None"
    by (simp add: map_of_eq_None_iff)
  show ?case
    using Cons a notin by (auto split: option.splits)
qed

subsection \<open>First-seen order\<close>

lemma set_first_seen: "set (first_seen xs) = set xs"
  by (induction xs) auto

lemma distinct_first_seen: "distinct (first_seen xs)"
  by (induction xs) (auto simp: set_first_seen)

lemma filter_first_seen_notin:
  "x \<notin> set xs \<Longrightarrow> filter (\<lambda>y. y \<noteq> x) (first_seen xs) = first_seen xs"
  by (rule filter_True) (auto simp: set_first_seen)

lemma first_seen_snoc:
  "first_seen (xs @ [x]) = (if x \<in> set xs then first_seen xs else first_seen xs @ [x])"
proof (induction xs)
  case Nil
  show ?case by simp
next
  case (Cons a xs)
  show ?case
  proof (cases "x = a")
    case True
    then show ?thesis
      using Cons by (cases "a \<in> set xs") (auto simp: filter_first_seen_notin)
  next
    case False
    then show ?thesis using Cons by auto
  qed
qed

subsection \<open>The \<^verbatim>\<open>||\<close> defaults\<close>

lemma js_or_defined: "d \<noteq> JUndefined \<Longrightarrow> js_or a d \<noteq> JUndefined"
  by (cases a) (simp_all add: js_or_def)

lemma js_or_defined': "d \<noteq> JUndefined \<Longrightarrow> JUndefined \<noteq> js_or a d"
  using js_or_defined [of d a] by simp

lemma js_or_idem: "js_or (js_or a d) d = js_or a d"
  by (simp add: js_or_def)

lemma js_or_undefined: "js_or JUndefined d = d"
  by (simp add: js_or_def)

subsection \<open>Pruning\<close>

lemma removeEmptyProperties_no_empty:
  "no_empty_fields (removeEmptyProperties v)"
  "fields_nonempty (prune_fields fs)"
  "elems_nonempty (prune_elems xs)"
  by (induction v and fs and xs rule: removeEmptyProperties_prune_fields_prune_elems.induct)
     simp_all

lemma removeEmptyProperties_id:
  "no_empty_fields v \<Longrightarrow> removeEmptyProperties v = v"
  "fields_nonempty fs \<Longrightarrow> prune_fields fs = fs"
  "elems_nonempty xs \<Longrightarrow> prune_elems xs = xs"
  by (induction v and fs and xs rule: removeEmptyProperties_prune_fields_prune_elems.induct)
     simp_all

lemma prune_fields_strings:
  "snd ` set fs \<subseteq> range JStr \<Longrightarrow> prune_fields fs = filter (\<lambda>kv. snd kv \<noteq> JStr []) fs"
  by (induction fs) (auto simp: empty_prunable_def)

subsection \<open>The secret pattern\<close>

lemma strip_prefix_append: "strip_prefix p (p @ s) = Some s"
  by (induction p) simp_all

lemma strip_prefix_Some: "strip_prefix p s = Some r \<Longrightarrow> s = p @ r"
  by (induction p s rule: strip_prefix.induct) (auto split: if_splits)

lemma not_ident_char_space: "\<not> ident_char CHR '' ''"
  by (simp add: ident_char_def ident_start_def)

text \<open>
  A well-formed token at the start of the string matches, whatever follows it, and the
  group is its identifier.
\<close>

lemma SECRET_PATTERN_exec_prefix:
  assumes "ident_start h" and "\<forall>c \<in> set t. ident_char c"
  shows "SECRET_PATTERN_exec (''<% $secrets.'' @ (h # t) @ '' %>'' @ trailing) = Some (h # t)"
proof -
  have tw: "takeWhile ident_char (t @ '' %>'' @ trailing) = t"
    using assms(2) by (simp add: takeWhile_append2 not_ident_char_space)
  have dw: "dropWhile ident_char (t @ '' %>'' @ trailing) = '' %>'' @ trailing"
    using assms(2) by (simp add: dropWhile_append2 not_ident_char_space)
  have "strip_prefix '' %>'' ('' %>'' @ trailing) = Some trailing"
    by (rule strip_prefix_append)
  with tw dw assms(1) show ?thesis
    by (simp add: SECRET_PATTERN_exec_def line_terminator_def)
qed

text \<open>A string that matches starts with \<^verbatim>\<open><% $secrets\<close>: nothing may precede the token.\<close>

lemma SECRET_PATTERN_exec_anchored:
  "SECRET_PATTERN_exec s = Some k \<Longrightarrow> \<exists>r. s = ''<% $secrets'' @ r"
  by (auto simp: SECRET_PATTERN_exec_def dest: strip_prefix_Some split: option.splits)

text \<open>
  With such a token as password and a value under its key, \<^verbatim>\<open>fromProtocol\<close> resolves the
  key; the \<^verbatim>\<open>secretRef\<close> it keeps is the whole password string.
\<close>

lemma fromProtocol_resolves_prefix:
  assumes "ident_start h" and "\<forall>c \<in> set t. ident_char c"
    and "get2 (JObj dockerInfoProtocol) ''auth'' ''password'' (JStr [])
           = JStr (''<% $secrets.'' @ (h # t) @ '' %>'' @ trailing)"
    and "\<not> isNil (obj_get secretMapping (h # t))"
  shows "\<exists>r. fromProtocol gname now dockerInfoProtocol secretMapping = Inr r
       \<and> js_prop (auth r) ''password'' = obj_get secretMapping (h # t)
       \<and> secretRef r = JStr (''<% $secrets.'' @ (h # t) @ '' %>'' @ trailing)"
proof -
  have "resolve_auth dockerInfoProtocol secretMapping =
          Inr (JObj (obj_set (obj_spread [] (props_of (obj_get dockerInfoProtocol ''auth'')))
                       ''password'' (obj_get secretMapping (h # t))),
               JStr (''<% $secrets.'' @ (h # t) @ '' %>'' @ trailing))"
    using assms(3,4) SECRET_PATTERN_exec_prefix [OF assms(1,2), of trailing]
    by (simp add: resolve_auth_def Let_def del: append.simps)
  then show ?thesis
    by (simp add: fromProtocol_def DockerInfo_new_def obj_get_obj_set js_or_def
          del: append.simps)
qed

text \<open>
  When the password converts to a string that does not match, or that matches with a
  key under which neither the secret mapping nor its prototype holds a value,
  \<^verbatim>\<open>fromProtocol\<close> returns a reference without credential.
\<close>

lemma fromProtocol_dangling_own:
  assumes "js_toString (get2 (JObj dockerInfoProtocol) ''auth'' ''password'' (JStr [])) = Inr s"
    and "case SECRET_PATTERN_exec s of
           None \<Rightarrow> True
         | Some k \<Rightarrow> isNil (obj_get secretMapping k)"
  shows "\<exists>r. fromProtocol gname now dockerInfoProtocol secretMapping = Inr r
       \<and> auth r = JObj [] \<and> secretRef r = JStr []"
proof -
  let ?pw = "get2 (JObj dockerInfoProtocol) ''auth'' ''password'' (JStr [])"
  have pw: "?pw \<noteq> JUndefined" by (rule get2_not_undefined) simp
  have "resolve_auth dockerInfoProtocol secretMapping = Inr (JObj [], JStr [])
      \<or> resolve_auth dockerInfoProtocol secretMapping = Inr (JUndefined, JNull)"
  proof (cases "isNil ?pw")
    case True
    with pw have "?pw = JNull" by (simp add: isNil_iff)
    then show ?thesis by (simp add: resolve_auth_def)
  next
    case False
    with assms show ?thesis
      by (auto simp: resolve_auth_def Let_def split: option.splits)
  qed
  then show ?thesis
    by (auto simp: fromProtocol_def DockerInfo_new_def obj_get_obj_set js_or_def)
qed

subsection \<open>The constructor and the derived document\<close>

lemma JobProtocol_new_this_props:
  "JobProtocol_new props = Inr d \<Longrightarrow> JobProtocol_new (JObj (this_props d)) = Inr d"
  by (auto simp: JobProtocol_new_def this_props_def obj_get_def js_or_idem split: if_splits)

lemma JobProtocol_new_nil: "JobProtocol_new JUndefined = Inl TypeError"
  "JobProtocol_new JNull = Inl TypeError"
  by (simp_all add: JobProtocol_new_def)

lemma getUpdatedProtocol_result:
  "\<exists>d. getUpdatedProtocol this jobBasicInfo jobTaskRoles jobParameters jobSecrets = Inr d
     \<and> protocolVersion d = JNum 2
     \<and> type d = JStr ''job''
     \<and> prerequisites d = JArr (map JObj (getTaskRolesPrerequisites jobTaskRoles))
     \<and> parameters d = removeEmptyProperties (JObj (edits_object jobParameters))
     \<and> secrets d = removeEmptyProperties (JObj (edits_object jobSecrets))
     \<and> taskRoles d = JObj (updateAndConvertTaskRoles jobTaskRoles)"
  by (simp add: getUpdatedProtocol_def JobProtocol_new_def Let_def obj_get_obj_set js_or_def)

subsection \<open>The prerequisites of the task roles\<close>

lemma prerequisites_map_tabulate:
  "foldl (\<lambda>m v. assoc_set m (prerequisite_name v) v) [] ps =
     map (\<lambda>n. (n, last (filter (\<lambda>p. prerequisite_name p = n) ps)))
       (first_seen (map prerequisite_name ps))"
proof (induction ps rule: rev_induct)
  case Nil
  show ?case by simp
next
  case (snoc p ps)
  let ?f = "\<lambda>qs n. last (filter (\<lambda>q. prerequisite_name q = n) qs)"
  have upd: "(?f ps)(prerequisite_name p := p) = ?f (ps @ [p])"
    by (auto simp: fun_eq_iff)
  have new: "map (\<lambda>n. (n, ?f ps n)) ns = map (\<lambda>n. (n, ?f (ps @ [p]) n)) ns"
    if "prerequisite_name p \<notin> set ns" for ns
    using that by (induction ns) auto
  show ?case
    using snoc
    by (simp add: first_seen_snoc assoc_set_tabulate distinct_first_seen set_first_seen upd new
          del: fun_upd_apply)
qed

lemma getTaskRolesPrerequisites_eq:
  "getTaskRolesPrerequisites jobTaskRoles =
     map (\<lambda>n. last (filter (\<lambda>p. prerequisite_name p = n)
                       (map role_dockerPrerequisite jobTaskRoles)))
       (first_seen (map prerequisite_name (map role_dockerPrerequisite jobTaskRoles)))"
  by (simp add: getTaskRolesPrerequisites_def prerequisites_map_tabulate comp_def)

lemma names_of_deduplicated:
  "map prerequisite_name
     (map (\<lambda>n. last (filter (\<lambda>p. prerequisite_name p = n) ps))
        (first_seen (map prerequisite_name ps)))
   = first_seen (map prerequisite_name ps)"
proof -
  have "prerequisite_name (last (filter (\<lambda>p. prerequisite_name p = n) ps)) = n"
    if "n \<in> set (map prerequisite_name ps)" for n
  proof -
    from that have ne: "filter (\<lambda>p. prerequisite_name p = n) ps \<noteq> []"
      by (auto simp: filter_empty_conv)
    from last_in_set [OF ne] show ?thesis by simp
  qed
  then show ?thesis
    unfolding map_map comp_def by (intro map_idI) (simp add: set_first_seen)
qed

subsection \<open>The mapping of a list of edits\<close>

text \<open>
  An edit whose key is \<^verbatim>\<open>__proto__\<close> leaves no property; the other edits are defined in
  order.
\<close>

lemma edits_object_foldl:
  "edits_object edits =
     foldl (\<lambda>a e. obj_set a (fst e) (JStr (snd e))) []
       (filter (\<lambda>e. fst e \<noteq> ''__proto__'') edits)"
proof -
  have "foldl keyValueArrayReducer acc (map (\<lambda>e. obj_assign [] (fst e) (JStr (snd e))) edits) =
          foldl (\<lambda>a e. obj_set a (fst e) (JStr (snd e))) acc
            (filter (\<lambda>e. fst e \<noteq> ''__proto__'') edits)" for acc
    by (induction edits arbitrary: acc)
       (simp_all add: keyValueArrayReducer_def obj_spread_def obj_assign_def obj_set_Nil)
  then show ?thesis by (simp add: edits_object_def)
qed

lemma distinct_foldl_obj_set:
  "distinct (map fst acc) \<Longrightarrow>
   distinct (map fst (foldl (\<lambda>a e. obj_set a (fst e) (JStr (snd e))) acc es))"
  by (induction es arbitrary: acc) (simp_all add: distinct_obj_set)

lemma distinct_edits_object: "distinct (map fst (edits_object edits))"
  by (simp add: edits_object_foldl distinct_foldl_obj_set)

lemma map_of_foldl_obj_set:
  "map_of (foldl (\<lambda>a e. obj_set a (fst e) (JStr (snd e))) acc es) k =
     (case map_of (rev es) k of None \<Rightarrow> map_of acc k | Some v \<Rightarrow> Some (JStr v))"
proof (induction es arbitrary: acc)
  case Nil
  show ?case by simp
next
  case (Cons e es)
  show ?case
    by (cases e) (auto simp: Cons map_of_obj_set map_add_def split: option.splits)
qed

lemma map_of_edits_object:
  "map_of (edits_object edits) k =
     map_option JStr (map_of (rev (filter (\<lambda>e. fst e \<noteq> ''__proto__'') edits)) k)"
  by (simp add: edits_object_foldl map_of_foldl_obj_set split: option.splits)

lemma values_foldl_obj_set:
  "snd ` set acc \<subseteq> range JStr \<Longrightarrow>
   snd ` set (foldl (\<lambda>a e. obj_set a (fst e) (JStr (snd e))) acc es) \<subseteq> range JStr"
proof (induction es arbitrary: acc)
  case Nil
  then show ?case by simp
next
  case (Cons e es)
  have "snd ` set (obj_set acc (fst e) (JStr (snd e))) \<subseteq> range JStr"
    using values_obj_set [of acc "fst e" "JStr (snd e)"] Cons.prems by blast
  then show ?case by (simp add: Cons.IH)
qed

lemma values_edits_object: "snd ` set (edits_object edits) \<subseteq> range JStr"
  by (simp add: edits_object_foldl values_foldl_obj_set)

lemma map_of_pruned_edits:
  "map_of (filter (\<lambda>kv. snd kv \<noteq> JStr []) (edits_object edits)) k =
     last_wins (filter (\<lambda>e. fst e \<noteq> ''__proto__'') edits) k"
  by (simp add: map_of_filter_distinct distinct_edits_object map_of_edits_object last_wins_def
        split: option.splits)

text \<open>
  For the edits whose key is not \<^verbatim>\<open>__proto__\<close>, the \<^verbatim>\<open>parameters\<close> and the \<^verbatim>\<open>secrets\<close> of the
  derived document are as the specification says: each key once, with the value of its
  last edit, and absent when that value is empty.
\<close>

lemma edits_merge_own_keys:
  "\<exists>d fs gs.
      getUpdatedProtocol this jobBasicInfo jobTaskRoles jobParameters jobSecrets = Inr d
    \<and> parameters d = JObj fs \<and> secrets d = JObj gs
    \<and> distinct (map fst fs) \<and> distinct (map fst gs)
    \<and> (\<forall>k. map_of fs k = last_wins (filter (\<lambda>e. fst e \<noteq> ''__proto__'') jobParameters) k)
    \<and> (\<forall>k. map_of gs k = last_wins (filter (\<lambda>e. fst e \<noteq> ''__proto__'') jobSecrets) k)"
proof -
  obtain d where "getUpdatedProtocol this jobBasicInfo jobTaskRoles jobParameters jobSecrets = Inr d"
    and "parameters d = removeEmptyProperties (JObj (edits_object jobParameters))"
    and "secrets d = removeEmptyProperties (JObj (edits_object jobSecrets))"
    using getUpdatedProtocol_result by blast
  then show ?thesis
    by (simp add: prune_fields_strings values_edits_object distinct_map_filter
          distinct_edits_object map_of_pruned_edits)
qed

lemma edits_example:
  "removeEmptyProperties (JObj (edits_object [(''a'', ''1''), (''a'', ''2''), (''b'', [])]))
     = JObj [(''a'', JStr ''2'')]"
  by (simp add: edits_object_foldl obj_set_def array_index_nondigit is_digit_def
        empty_prunable_def)

section \<open>Secret references of a container reference\<close>

text \<open>
  C1, as the code has it. For the raw prerequisite \<^verbatim>\<open>{auth:{password:"<% $secrets.k1 %>"}}\<close>
  and the secret mapping \<^verbatim>\<open>{k1:"hunter2"}\<close>, \<^verbatim>\<open>fromProtocol\<close> returns a reference whose
  \<^verbatim>\<open>auth.password\<close> is \<^verbatim>\<open>hunter2\<close> and whose \<^verbatim>\<open>secretRef\<close> is the whole reference token
  \<^verbatim>\<open><% $secrets.k1 %>\<close>; \<^verbatim>\<open>convertToProtocolFormat\<close> of that reference has the token as
  \<^verbatim>\<open>auth.password\<close>, and not the literal \<^verbatim>\<open>hunter2\<close>.
\<close>

theorem fromProtocol_secret_resolution:
  "(case fromProtocol gname now
           [(''auth'', JObj [(''password'', JStr ''<% $secrets.k1 %>'')])]
           [(''k1'', JStr ''hunter2'')] of
      Inl e \<Rightarrow> False
    | Inr r \<Rightarrow>
        js_prop (auth r) ''password'' = JStr ''hunter2''
      \<and> secretRef r = JStr ''<% $secrets.k1 %>''
      \<and> js_prop (js_prop (convertToProtocolFormat r) ''auth'') ''password''
          = JStr ''<% $secrets.k1 %>''
      \<and> js_prop (js_prop (convertToProtocolFormat r) ''auth'') ''password''
          \<noteq> JStr ''hunter2'')"
  by (simp add: fromProtocol_def resolve_auth_k1 DockerInfo_new_def obj_spread_def obj_set_def
        obj_get_def proto_member_of_def js_or_def convertToProtocolFormat_def empty_prunable_def
        array_index_nondigit is_digit_def)

text \<open>
  C1, as the specification states it, fails: the \<^verbatim>\<open>secretRef\<close> of that reference is not
  the key name \<^verbatim>\<open>k1\<close>.
\<close>

theorem fromProtocol_secretRef_counterexample:
  "\<not> (case fromProtocol (JStr []) 0
              [(''auth'', JObj [(''password'', JStr ''<% $secrets.k1 %>'')])]
              [(''k1'', JStr ''hunter2'')] of
         Inl e \<Rightarrow> False
       | Inr r \<Rightarrow> js_prop (auth r) ''password'' = JStr ''hunter2'' \<and> secretRef r = JStr ''k1'')"
  by (simp add: fromProtocol_def resolve_auth_k1 DockerInfo_new_def obj_spread_def obj_set_def
        obj_get_def proto_member_of_def js_or_def array_index_nondigit is_digit_def)

text \<open>
  C3. The claim that a token naming a key absent from the secret mapping gives a
  reference without credential, and that no failure is produced, fails on the code.
  \<^verbatim>\<open>secrets[secretKey]\<close> reads through the prototype of the mapping: for the password
  \<^verbatim>\<open><% $secrets.toString %>\<close> and the empty secret mapping it finds the inherited function
  \<^verbatim>\<open>toString\<close>, so \<^verbatim>\<open>fromProtocol\<close> returns a reference whose \<^verbatim>\<open>auth.password\<close> is that
  function and whose \<^verbatim>\<open>secretRef\<close> is the token. And for a password that is an object whose
  own \<^verbatim>\<open>toString\<close> is no function, the conversion to a string that \<^verbatim>\<open>exec\<close> performs raises
  a \<^verbatim>\<open>TypeError\<close>. (Without these two cases the claim holds: see
  \<open>fromProtocol_dangling_own\<close>.)
\<close>

theorem fromProtocol_inherited_key:
  "(case fromProtocol gname now
           [(''auth'', JObj [(''password'', JStr ''<% $secrets.toString %>'')])] [] of
      Inl e \<Rightarrow> False
    | Inr r \<Rightarrow>
        js_prop (auth r) ''password'' = JInherited M_toString
      \<and> secretRef r = JStr ''<% $secrets.toString %>'')
 \<and> fromProtocol gname now
      [(''auth'', JObj [(''password'', JObj [(''toString'', JNum 1)])])] secretMapping
    = Inl TypeError"
proof -
  have m: "SECRET_PATTERN_exec ''<% $secrets.toString %>'' = Some ''toString''"
    by (simp add: SECRET_PATTERN_exec_def ident_start_def ident_char_def line_terminator_def)
  have a: "resolve_auth [(''auth'', JObj [(''password'', JStr ''<% $secrets.toString %>'')])] []
      = Inr (JObj [(''password'', JInherited M_toString)], JStr ''<% $secrets.toString %>'')"
    by (simp add: resolve_auth_def get2_def obj_get_def proto_member_of_def m
          obj_spread_def obj_set_def array_index_nondigit is_digit_def)
  have b: "resolve_auth [(''auth'', JObj [(''password'', JObj [(''toString'', JNum 1)])])]
             secretMapping = Inl TypeError"
    by (simp add: resolve_auth_def get2_def obj_get_def proto_member_of_def
          to_primitive_def try_method_def call_method_def)
  show ?thesis
    by (simp add: fromProtocol_def a b DockerInfo_new_def obj_spread_def obj_set_def
          obj_get_def proto_member_of_def js_or_def array_index_nondigit is_digit_def)
qed

text \<open>
  C9. The claim that a password in which no well-formed token \<^verbatim>\<open><% $secrets.<identifier> %>\<close>
  stands at position 0 does not match fails on the code: the dot of the pattern is not
  escaped, so any character may stand in its place. The password \<^verbatim>\<open><% $secretsXk1 %>\<close>
  holds no token, yet it matches with the key \<^verbatim>\<open>k1\<close>, and \<^verbatim>\<open>fromProtocol\<close> resolves it.
  (The anchoring itself is as claimed: see \<open>SECRET_PATTERN_exec_prefix\<close>,
  \<open>SECRET_PATTERN_exec_anchored\<close> and \<open>fromProtocol_resolves_prefix\<close>.)
\<close>

theorem SECRET_PATTERN_wildcard:
  "SECRET_PATTERN_exec ''<% $secretsXk1 %>'' = Some ''k1''
 \<and> (case fromProtocol gname now
           [(''auth'', JObj [(''password'', JStr ''<% $secretsXk1 %>'')])]
           [(''k1'', JStr ''hunter2'')] of
      Inl e \<Rightarrow> False
    | Inr r \<Rightarrow> js_prop (auth r) ''password'' = JStr ''hunter2'')"
proof -
  have m: "SECRET_PATTERN_exec ''<% $secretsXk1 %>'' = Some ''k1''"
    by (simp add: SECRET_PATTERN_exec_def ident_start_def ident_char_def line_terminator_def)
  have a: "resolve_auth [(''auth'', JObj [(''password'', JStr ''<% $secretsXk1 %>'')])]
             [(''k1'', JStr ''hunter2'')]
      = Inr (JObj [(''password'', JStr ''hunter2'')], JStr ''<% $secretsXk1 %>'')"
    by (simp add: resolve_auth_def get2_def obj_get_def proto_member_of_def m
          obj_spread_def obj_set_def array_index_nondigit is_digit_def)
  show ?thesis
    by (simp add: m fromProtocol_def a DockerInfo_new_def obj_spread_def obj_set_def
          obj_get_def proto_member_of_def js_or_def array_index_nondigit is_digit_def)
qed

section \<open>The constructor\<close>

text \<open>
  C8. For every field bundle, whichever of its fields are absent, the constructor
  returns a document, and in it every field is defined. An absent \<^verbatim>\<open>name\<close>,
  \<^verbatim>\<open>description\<close> or \<^verbatim>\<open>contributor\<close> is the empty string, an absent \<^verbatim>\<open>jobRetryCount\<close> is
  0, absent \<^verbatim>\<open>prerequisites\<close> are the empty sequence, and an absent \<^verbatim>\<open>parameters\<close>,
  \<^verbatim>\<open>taskRoles\<close>, \<^verbatim>\<open>deployments\<close>, \<^verbatim>\<open>secrets\<close>, \<^verbatim>\<open>defaults\<close> or \<^verbatim>\<open>extras\<close> is the empty
  mapping.
\<close>

theorem constructor_defaults:
  "\<exists>d. JobProtocol_new (JObj bundle) = Inr d
     \<and> JUndefined \<notin> snd ` set (this_props d)
     \<and> (map_of bundle ''name'' = None \<longrightarrow> name d = JStr [])
     \<and> (map_of bundle ''description'' = None \<longrightarrow> description d = JStr [])
     \<and> (map_of bundle ''contributor'' = None \<longrightarrow> contributor d = JStr [])
     \<and> (map_of bundle ''jobRetryCount'' = None \<longrightarrow> jobRetryCount d = JNum 0)
     \<and> (map_of bundle ''prerequisites'' = None \<longrightarrow> prerequisites d = JArr [])
     \<and> (map_of bundle ''parameters'' = None \<longrightarrow> parameters d = JObj [])
     \<and> (map_of bundle ''taskRoles'' = None \<longrightarrow> taskRoles d = JObj [])
     \<and> (map_of bundle ''deployments'' = None \<longrightarrow> deployments d = JObj [])
     \<and> (map_of bundle ''secrets'' = None \<longrightarrow> secrets d = JObj [])
     \<and> (map_of bundle ''defaults'' = None \<longrightarrow> defaults d = JObj [])
     \<and> (map_of bundle ''extras'' = None \<longrightarrow> extras d = JObj [])"
  by (simp add: JobProtocol_new_def this_props_def js_or_defined' js_or_undefined obj_get_def
        proto_member_of_def)

text \<open>A bundle with a name and a \<^verbatim>\<open>null\<close> retry count, everything else absent.\<close>

theorem constructor_defaults_witness:
  "JobProtocol_new (JObj [(''name'', JStr ''job1''), (''jobRetryCount'', JNull)]) = Inr doc0"
  using constructor_defaults [of "[(''name'', JStr ''job1''), (''jobRetryCount'', JNull)]"]
  by (simp add: JobProtocol_new_def js_or_def obj_get_def proto_member_of_def doc0_def)

text \<open>
  C10. Every document that the constructor returns has \<^verbatim>\<open>protocolVersion\<close> 2 and \<^verbatim>\<open>type\<close>
  \<^verbatim>\<open>job\<close>, whatever the fields supplied; so has every document that \<^verbatim>\<open>fromYaml\<close> returns,
  whatever the text holds, and \<^verbatim>\<open>getUpdatedProtocol\<close> always returns a document, which
  has them too.
\<close>

theorem fixed_version_and_type:
  "(\<forall>d. JobProtocol_new props = Inr d \<longrightarrow> protocolVersion d = JNum 2 \<and> type d = JStr ''job'')
 \<and> (\<forall>d. fromYaml safeLoad protocolYaml = Inr d \<longrightarrow>
         protocolVersion d = JNum 2 \<and> type d = JStr ''job'')
 \<and> (\<exists>d. getUpdatedProtocol this jobBasicInfo jobTaskRoles jobParameters jobSecrets = Inr d
        \<and> protocolVersion d = JNum 2 \<and> type d = JStr ''job'')"
proof -
  have new: "protocolVersion d = JNum 2 \<and> type d = JStr ''job''"
    if "JobProtocol_new p = Inr d" for p d
    using that by (auto simp: JobProtocol_new_def split: if_splits)
  have "protocolVersion d = JNum 2 \<and> type d = JStr ''job''"
    if "fromYaml safeLoad protocolYaml = Inr d" for d
    using that new by (auto simp: fromYaml_def split: sum.splits)
  moreover obtain d where
    "getUpdatedProtocol this jobBasicInfo jobTaskRoles jobParameters jobSecrets = Inr d"
    "protocolVersion d = JNum 2" "type d = JStr ''job''"
    using getUpdatedProtocol_result by blast
  ultimately show ?thesis using new by blast
qed

text \<open>Fields and a parsed text that supply version 1 and another type.\<close>

theorem fixed_version_and_type_witness:
  "(\<exists>d. JobProtocol_new (JObj [(''protocolVersion'', JNum 1), (''type'', JStr ''other'')]) = Inr d
       \<and> protocolVersion d = JNum 2 \<and> type d = JStr ''job'')
 \<and> (\<exists>d. fromYaml (\<lambda>t. Inr (JObj [(''protocolVersion'', JNum 1), (''type'', JStr ''other'')]))
            ''protocolVersion: 1'' = Inr d
       \<and> protocolVersion d = JNum 2 \<and> type d = JStr ''job'')"
proof -
  let ?p = "JObj [(''protocolVersion'', JNum 1), (''type'', JStr ''other'')]"
  obtain d where d: "JobProtocol_new ?p = Inr d"
    by (simp add: JobProtocol_new_def)
  have f: "fromYaml (\<lambda>t. Inr ?p) ''protocolVersion: 1'' = Inr d"
    using d by (simp add: fromYaml_def)
  from fixed_version_and_type [where props = ?p and safeLoad = "\<lambda>t. Inr ?p"
      and protocolYaml = "''protocolVersion: 1''"] d f
  show ?thesis by blast
qed

section \<open>Deriving the updated document\<close>

text \<open>
  C4. The \<^verbatim>\<open>prerequisites\<close> of the document that \<^verbatim>\<open>getUpdatedProtocol\<close> returns are those of
  \<^verbatim>\<open>_getTaskRolesPrerequisites\<close>: one prerequisite for each distinct name among the docker
  prerequisites of the task roles, namely the last one with that name, the names in the
  order in which each is first seen.
\<close>

theorem prerequisites_deduplicated:
  fixes jobTaskRoles :: "task_role list"
  shows
  "(let ps = map role_dockerPrerequisite jobTaskRoles;
        result = getTaskRolesPrerequisites jobTaskRoles
    in (\<exists>d. getUpdatedProtocol this jobBasicInfo jobTaskRoles jobParameters jobSecrets = Inr d
            \<and> prerequisites d = JArr (map JObj result))
     \<and> distinct (map prerequisite_name result)
     \<and> map prerequisite_name result = first_seen (map prerequisite_name ps)
     \<and> result = map (\<lambda>n. last (filter (\<lambda>p. prerequisite_name p = n) ps))
                   (first_seen (map prerequisite_name ps)))"
proof -
  obtain d where "getUpdatedProtocol this jobBasicInfo jobTaskRoles jobParameters jobSecrets = Inr d"
    and "prerequisites d = JArr (map JObj (getTaskRolesPrerequisites jobTaskRoles))"
    using getUpdatedProtocol_result by blast
  moreover have "map prerequisite_name (getTaskRolesPrerequisites jobTaskRoles)
      = first_seen (map prerequisite_name (map role_dockerPrerequisite jobTaskRoles))"
    by (simp only: getTaskRolesPrerequisites_eq names_of_deduplicated)
  ultimately show ?thesis
    using getTaskRolesPrerequisites_eq [of jobTaskRoles]
    by (simp add: Let_def distinct_first_seen del: map_map)
qed

text \<open>
  Three roles, of which the first and the third share the prerequisite name \<^verbatim>\<open>img\<close>:
  the third role's prerequisite survives, in the first place.
\<close>

theorem prerequisites_deduplicated_witness:
  "getTaskRolesPrerequisites sample_roles =
     [[(''name'', JStr ''img''), (''uri'', JStr ''u3'')],
      [(''name'', JStr ''other''), (''uri'', JStr ''u2'')]]"
  using prerequisites_deduplicated [where jobTaskRoles = sample_roles]
  by (simp add: Let_def prerequisite_name_def obj_get_def sample_roles_def)

text \<open>
  C5. The claim that the mapping is the fold of the edits for every list of edits fails
  on the code for an edit whose key is \<^verbatim>\<open>__proto__\<close>. The fold of the specification maps
  that key to the value of its last edit; in the code the assignment
  \<^verbatim>\<open>param[parameter.key] = parameter.value\<close> runs the inherited setter and creates no
  property, so the edit is lost and the \<^verbatim>\<open>parameters\<close> and \<^verbatim>\<open>secrets\<close> of the derived
  document are empty. (For all other keys the claim holds: see \<open>edits_merge_own_keys\<close>
  and \<open>edits_example\<close>.)
\<close>

theorem edits_proto_key_lost:
  "last_wins [(''__proto__'', ''x'')] ''__proto__'' = Some (JStr ''x'')
 \<and> (\<exists>d. getUpdatedProtocol this jobBasicInfo jobTaskRoles
            [(''__proto__'', ''x'')] [(''__proto__'', ''x'')] = Inr d
        \<and> parameters d = JObj [] \<and> secrets d = JObj [])"
proof -
  have e: "edits_object [(''__proto__'', ''x'')] = []"
    by (simp add: edits_object_foldl)
  obtain d where
    "getUpdatedProtocol this jobBasicInfo jobTaskRoles
       [(''__proto__'', ''x'')] [(''__proto__'', ''x'')] = Inr d"
    "parameters d = removeEmptyProperties (JObj (edits_object [(''__proto__'', ''x'')]))"
    "secrets d = removeEmptyProperties (JObj (edits_object [(''__proto__'', ''x'')]))"
    using getUpdatedProtocol_result by blast
  then show ?thesis
    by (simp add: e last_wins_def)
qed

section \<open>Serializing and parsing\<close>

text \<open>
  C6. For every document, what \<^verbatim>\<open>toYaml\<close> hands to the serializer, and so what the text
  it returns holds, has no field that is an empty string, an empty mapping or an empty
  sequence, at any depth.
\<close>

theorem toYaml_pruned:
  "no_empty_fields (removeEmptyProperties (JObj (this_props d)))
 \<and> (toYaml safeDump d = Inr text \<longrightarrow>
      safeDump (removeEmptyProperties (JObj (this_props d))) = Inr text)"
  by (simp add: removeEmptyProperties_no_empty(2) toYaml_def split: sum.splits)

text \<open>Of the thirteen fields of the sample document, four are left.\<close>

theorem toYaml_pruned_witness:
  "removeEmptyProperties (JObj (this_props doc0)) =
     JObj [(''protocolVersion'', JNum 2), (''name'', JStr ''job1''), (''type'', JStr ''job''),
           (''jobRetryCount'', JNum 0)]
 \<and> no_empty_fields (removeEmptyProperties (JObj (this_props doc0)))
 \<and> toYaml (\<lambda>v. Inr ''protocolVersion: 2'') doc0 = Inr ''protocolVersion: 2''"
  using toYaml_pruned [of doc0 "\<lambda>v. Inr ''protocolVersion: 2''" "''protocolVersion: 2''"]
  by (simp add: this_props_def doc0_def empty_prunable_def toYaml_def)

text \<open>
  C2. Let \<open>d\<close> be a document, that is, what the constructor returned for some fields, and
  let it have no empty field. If \<^verbatim>\<open>toYaml\<close> returns a text for it, then \<^verbatim>\<open>fromYaml\<close> of
  that text returns \<open>d\<close>, provided the parser of the YAML library returns, for a text
  that its serializer wrote, the value that was written.
\<close>

theorem yaml_round_trip:
  assumes constructed: "JobProtocol_new props = Inr d"
    and no_empty: "no_empty_fields (JObj (this_props d))"
    and library: "\<And>v t. safeDump v = Inr t \<Longrightarrow> safeLoad t = Inr v"
    and serialized: "toYaml safeDump d = Inr text"
  shows "fromYaml safeLoad text = Inr d"
proof -
  from no_empty have "removeEmptyProperties (JObj (this_props d)) = JObj (this_props d)"
    by (rule removeEmptyProperties_id(1))
  with serialized have "safeDump (JObj (this_props d)) = Inr text"
    by (simp add: toYaml_def split: sum.splits)
  then have "safeLoad text = Inr (JObj (this_props d))"
    by (rule library)
  with constructed show ?thesis
    by (simp add: fromYaml_def JobProtocol_new_this_props)
qed

text \<open>The sample document without empty fields goes through the sample library.\<close>

theorem yaml_round_trip_witness:
  "JobProtocol_new doc1_props = Inr doc1
 \<and> no_empty_fields (JObj (this_props doc1))
 \<and> toYaml sample_dump doc1 = Inr ''sample''
 \<and> fromYaml sample_load ''sample'' = Inr doc1"
proof -
  have c: "JobProtocol_new doc1_props = Inr doc1"
    by (simp add: JobProtocol_new_def doc1_props_def doc1_def obj_get_def js_or_def)
  have n: "no_empty_fields (JObj (this_props doc1))"
    by (simp add: this_props_def doc1_def empty_prunable_def)
  have l: "\<And>v t. sample_dump v = Inr t \<Longrightarrow> sample_load t = Inr v"
    by (simp add: sample_dump_def sample_load_def split: if_splits)
  have s: "toYaml sample_dump doc1 = Inr ''sample''"
    using n by (simp add: toYaml_def removeEmptyProperties_id(2) sample_dump_def)
  from yaml_round_trip [OF c n l s] c n s show ?thesis by simp
qed

text \<open>
  C7. \<^verbatim>\<open>validateFromYaml\<close> returns a string for every text: it has no raising path. When
  the parser raises, the string is the message of its exception, which is not empty;
  when the parsed value fails the schema, it is \<^verbatim>\<open>ValidationError\<close>, followed by a colon
  and the message of the error if that is not empty; when the text parses and the parsed
  value passes the schema, it is the empty string. So the string is empty exactly when
  parsing and schema validation both succeed.
\<close>

theorem validateFromYaml_result:
  "(\<forall>err. safeLoad protocolYaml = Inl err \<longrightarrow>
       validateFromYaml safeLoad validate protocolYaml = yaml_message err
     \<and> validateFromYaml safeLoad validate protocolYaml \<noteq> [])
 \<and> (\<forall>protocol msg. safeLoad protocolYaml = Inr protocol \<and> validate protocol = Some msg \<longrightarrow>
       validateFromYaml safeLoad validate protocolYaml
         = (if msg = [] then ''ValidationError'' else ''ValidationError: '' @ msg)
     \<and> validateFromYaml safeLoad validate protocolYaml \<noteq> [])
 \<and> (\<forall>protocol. safeLoad protocolYaml = Inr protocol \<and> validate protocol = None \<longrightarrow>
       validateFromYaml safeLoad validate protocolYaml = [])
 \<and> (validateFromYaml safeLoad validate protocolYaml = [] \<longleftrightarrow>
       (\<exists>protocol. safeLoad protocolYaml = Inr protocol \<and> validate protocol = None))"
proof -
  have msg: "yaml_message err \<noteq> []" for err
    by (cases err) simp
  show ?thesis
    by (auto simp: validateFromYaml_def error_toString_def msg split: sum.splits option.splits)
qed

text \<open>A text that does not parse, one that fails the schema, and a valid one.\<close>

theorem validateFromYaml_result_witness:
  "validateFromYaml sample_parse sample_validate ''not: [valid''
     = ''unexpected end of the stream within a flow collection at line 2, column 1''
 \<and> validateFromYaml sample_parse sample_validate ''job2''
     = ''ValidationError: child name fails because of its value''
 \<and> validateFromYaml sample_parse sample_validate ''job1'' = []"
proof -
  have p: "sample_parse ''not: [valid''
      = Inl (YAMLError ''unexpected end of the stream within a flow collection''
               (Some ''at line 2, column 1''))"
    by (simp add: sample_parse_def)
  have q: "sample_parse ''job2'' = Inr (JObj [(''name'', JStr ''job2'')])"
    "sample_validate (JObj [(''name'', JStr ''job2'')])
       = Some ''child name fails because of its value''"
    by (simp_all add: sample_parse_def sample_validate_def obj_get_def)
  have r: "sample_parse ''job1'' = Inr (JObj [(''name'', JStr ''job1'')])"
    "sample_validate (JObj [(''name'', JStr ''job1'')]) = None"
    by (simp_all add: sample_parse_def sample_validate_def obj_get_def)
  from validateFromYaml_result [of sample_parse "''not: [valid''" sample_validate] p
  have 1: "validateFromYaml sample_parse sample_validate ''not: [valid''
      = ''unexpected end of the stream within a flow collection at line 2, column 1''"
    by simp
  from validateFromYaml_result [of sample_parse "''job2''" sample_validate] q
  have 2: "validateFromYaml sample_parse sample_validate ''job2''
      = ''ValidationError: child name fails because of its value''"
    by simp
  from validateFromYaml_result [of sample_parse "''job1''" sample_validate] r
  have 3: "validateFromYaml sample_parse sample_validate ''job1'' = []"
    by simp
  from 1 2 3 show ?thesis by simp
qed

end
